theory Spec2Isabelle
  imports Main "HOL-Library.Multiset"
begin

section \<open>Data model (models.py)\<close>

text \<open>
  One row of the \<open>Template\<close> table. The primary key \<open>id\<close> (a UUID drawn by \<open>uuid.uuid4\<close>)
  is the field \<open>uid\<close> here, since \<open>id\<close> is the identity function of HOL. Versions are
  Python integers; the timestamps are readings of the server clock.
\<close>

record template =
  uid :: nat
  code :: string
  name :: string
  language :: string
  subject :: "string option"
  content :: string
  version :: int
  is_active :: bool
  created_at :: nat
  updated_at :: nat

text \<open>The table: its rows in insertion order.\<close>

type_synonym store = "template list"

text \<open>\<open>unique_together = ('code', 'language', 'version')\<close> and the primary key.\<close>

definition unique_together :: "store \<Rightarrow> bool" where
  "unique_together db = distinct (map (\<lambda>t. (code t, language t, version t)) db)"

definition unique_pk :: "store \<Rightarrow> bool" where
  "unique_pk db = distinct (map uid db)"

text \<open>
  The exceptions that leave a view: the first two are answered by the framework with
  their status, an \<open>IntegrityError\<close> of the store and any other exception are a
  server error.
\<close>

datatype api_error = ValidationError | NotFound | IntegrityError | UnhandledException

fun status_code :: "api_error \<Rightarrow> nat" where
  "status_code ValidationError = 400"
| "status_code NotFound = 404"
| "status_code IntegrityError = 500"
| "status_code UnhandledException = 500"

section \<open>Queryset operations used by the views\<close>

text \<open>\<open>Template.objects.filter(code=code, language=language)\<close>\<close>

definition filter_group :: "store \<Rightarrow> string \<Rightarrow> string \<Rightarrow> template list" where
  "filter_group db cd lang = filter (\<lambda>t. code t = cd \<and> language t = lang) db"

text \<open>\<open>Template.objects.filter(code=code, language=language, is_active=True)\<close>\<close>

definition filter_active :: "store \<Rightarrow> string \<Rightarrow> string \<Rightarrow> template list" where
  "filter_active db cd lang =
     filter (\<lambda>t. code t = cd \<and> language t = lang \<and> is_active t) db"

text \<open>
  \<open>.order_by('-version')\<close>: greatest version first. Rows of equal version keep their
  order here; the database leaves their order open, and \<open>unique_together\<close> rules equal
  versions out within a group.
\<close>

definition order_by_version_desc :: "template list \<Rightarrow> template list" where
  "order_by_version_desc ts = sort_key (\<lambda>t. - version t) ts"

text \<open>\<open>.first()\<close>: the first row, or \<open>None\<close> on an empty queryset.\<close>

definition first_row :: "'a list \<Rightarrow> 'a option" where
  "first_row xs = (case xs of [] \<Rightarrow> None | x # _ \<Rightarrow> Some x)"

text \<open>
  \<open>.latest("version")\<close>: the row of greatest version; on an empty queryset it raises
  \<open>DoesNotExist\<close>, which is \<open>None\<close> here.
\<close>

definition latest_by_version :: "template list \<Rightarrow> template option" where
  "latest_by_version ts = first_row (order_by_version_desc ts)"

section \<open>The template engine (external)\<close>

text \<open>
  \<open>django.template.Template\<close> is a library the views call; it is a parameter of the
  model. \<open>DjangoTemplate s\<close> is \<open>None\<close> when compiling \<open>s\<close> raises
  \<open>TemplateSyntaxError\<close>, and otherwise the compiled template. Rendering a compiled
  template with the variables of the \<open>Context\<close> gives the rendered text, or raises:
  \<open>TemplateSyntaxError\<close> once more, or some other exception.
\<close>

type_synonym variables = "(string \<times> string) list"

datatype render_failure = RenderSyntaxError | RenderException

type_synonym compiled = "variables \<Rightarrow> render_failure + string"

type_synonym engine = "string \<Rightarrow> compiled option"

section \<open>Responses (views.py)\<close>

record pagination_meta =
  total :: nat
  limit :: nat
  page :: nat
  total_pages :: nat
  has_next :: bool
  has_previous :: bool

text \<open>The dictionary built by \<open>_envelope_response\<close>; \<open>meta = None\<close> is the empty dictionary.\<close>

record 'd envelope =
  success :: bool
  data :: "'d option"
  error :: "string option"
  message :: string
  meta :: "pagination_meta option"

definition envelope_response ::
  "bool \<Rightarrow> 'd option \<Rightarrow> string \<Rightarrow> string option \<Rightarrow> pagination_meta option \<Rightarrow> 'd envelope" where
  "envelope_response ok d msg err m =
     \<lparr>success = ok, data = d, error = err, message = msg, meta = m\<rparr>"

text \<open>
  What a view produces: a \<open>Response\<close> with its status, or an exception that leaves the view
  and is turned into a status by the framework.
\<close>

datatype 'd response = Response nat "'d envelope" | Raised api_error

fun http_status :: "'d response \<Rightarrow> nat" where
  "http_status (Response st _) = st"
| "http_status (Raised e) = status_code e"

fun response_data :: "'d response \<Rightarrow> 'd option" where
  "response_data (Response _ env) = data env"
| "response_data (Raised _) = None"

section \<open>The serializer (serializers.py)\<close>

text \<open>
  The body of a create or update request, field by field; \<open>None\<close> is a field the client
  did not send. \<open>subject\<close> may also be sent as \<open>null\<close> (\<open>Some None\<close>). The values are those
  the framework hands to the field validators.
\<close>

record payload =
  p_id :: "nat option"
  p_code :: "string option"
  p_name :: "string option"
  p_language :: "string option"
  p_subject :: "string option option"
  p_content :: "string option"
  p_version :: "int option"
  p_is_active :: "bool option"
  p_created_at :: "nat option"
  p_updated_at :: "nat option"

text \<open>
  \<open>serializer.validated_data\<close> of a full (non-partial) validation. The fields of
  \<open>read_only_fields\<close> (\<open>id\<close>, \<open>version\<close>, \<open>is_active\<close>, \<open>created_at\<close>, \<open>updated_at\<close>)
  never enter it.
\<close>

record validated_data =
  v_code :: string
  v_name :: string
  v_language :: "string option"
  v_subject :: "string option option"
  v_content :: string

text \<open>A required \<open>CharField(max_length=n)\<close>: not blank, at most \<open>n\<close> characters.\<close>

definition char_field_valid :: "nat \<Rightarrow> string \<Rightarrow> bool" where
  "char_field_valid max_length s = (s \<noteq> [] \<and> length s \<le> max_length)"

text \<open>\<open>TemplateSerializer.validate_content\<close>: compiling the value must not raise.\<close>

definition validate_content :: "engine \<Rightarrow> string \<Rightarrow> bool" where
  "validate_content DjangoTemplate v = (DjangoTemplate v \<noteq> None)"

text \<open>
  The checks on the fields that are present: the lengths declared in models.py, and
  \<open>validate_content\<close> on \<open>content\<close>. No method of the serializer checks \<open>subject\<close> beyond
  its length (\<open>blank=True, null=True\<close>).
\<close>

definition fields_valid :: "engine \<Rightarrow> payload \<Rightarrow> bool" where
  "fields_valid DjangoTemplate p =
     ((case p_code p of None \<Rightarrow> True | Some s \<Rightarrow> char_field_valid 100 s) \<and>
      (case p_name p of None \<Rightarrow> True | Some s \<Rightarrow> char_field_valid 200 s) \<and>
      (case p_language p of None \<Rightarrow> True | Some s \<Rightarrow> char_field_valid 10 s) \<and>
      (case p_subject p of Some (Some s) \<Rightarrow> length s \<le> 255 | _ \<Rightarrow> True) \<and>
      (case p_content p of None \<Rightarrow> True
       | Some s \<Rightarrow> s \<noteq> [] \<and> validate_content DjangoTemplate s))"

text \<open>
  \<open>serializer.is_valid()\<close> without \<open>partial\<close>: \<open>code\<close>, \<open>name\<close> and \<open>content\<close> are
  required. \<open>None\<close> is the \<open>ValidationError\<close>.
\<close>

definition is_valid :: "engine \<Rightarrow> payload \<Rightarrow> validated_data option" where
  "is_valid DjangoTemplate p =
     (case (p_code p, p_name p, p_content p) of
        (Some cd, Some nm, Some ct) \<Rightarrow>
          if fields_valid DjangoTemplate p
          then Some \<lparr>v_code = cd, v_name = nm, v_language = p_language p,
                     v_subject = p_subject p, v_content = ct\<rparr>
          else None
      | _ \<Rightarrow> None)"

text \<open>\<open>serializer.is_valid()\<close> with \<open>partial=True\<close> (PATCH): nothing is required.\<close>

definition is_valid_partial :: "engine \<Rightarrow> payload \<Rightarrow> bool" where
  "is_valid_partial DjangoTemplate p = fields_valid DjangoTemplate p"

section \<open>Creating a version (TemplateListCreateView)\<close>

text \<open>
  \<open>latest = Template.objects.filter(code=code, language=language).order_by('-version').first()\<close>
  and \<open>next_version = latest.version + 1 if latest else 1\<close>.
\<close>

definition next_version :: "store \<Rightarrow> string \<Rightarrow> string \<Rightarrow> int" where
  "next_version db cd lang =
     (case first_row (order_by_version_desc (filter_group db cd lang)) of
        None \<Rightarrow> 1
      | Some latest \<Rightarrow> version latest + 1)"

text \<open>\<open>validated_data.get("language", "en")\<close>, also the default of the model field.\<close>

definition language_or_default :: "string option \<Rightarrow> string" where
  "language_or_default l = (case l of None \<Rightarrow> ''en'' | Some s \<Rightarrow> s)"

text \<open>
  The row that \<open>serializer.save(version=next_version)\<close> builds: \<open>is_active\<close> takes the
  default \<open>True\<close> of the model, the key is the UUID drawn, both timestamps are the clock.
\<close>

definition new_row :: "nat \<Rightarrow> nat \<Rightarrow> validated_data \<Rightarrow> int \<Rightarrow> template" where
  "new_row new_id now vd nv =
     \<lparr>uid = new_id, code = v_code vd, name = v_name vd,
      language = language_or_default (v_language vd),
      subject = (case v_subject vd of None \<Rightarrow> None | Some s \<Rightarrow> s),
      content = v_content vd, version = nv, is_active = True,
      created_at = now, updated_at = now\<rparr>"

text \<open>The INSERT: the store refuses a duplicate key or a duplicate \<open>(code, language, version)\<close>.\<close>

definition insert_row :: "store \<Rightarrow> template \<Rightarrow> api_error + store" where
  "insert_row db t =
     (if uid t \<in> set (map uid db) \<or>
         (code t, language t, version t) \<in> set (map (\<lambda>u. (code u, language u, version u)) db)
      then Inl IntegrityError
      else Inr (db @ [t]))"

text \<open>
  \<open>Template.objects.filter(code=code, language=language).exclude(version=next_version)
  .update(is_active=False)\<close>; a queryset update leaves \<open>updated_at\<close> alone.
\<close>

definition deactivate_others :: "store \<Rightarrow> string \<Rightarrow> string \<Rightarrow> int \<Rightarrow> store" where
  "deactivate_others db cd lang nv =
     map (\<lambda>t. if code t = cd \<and> language t = lang \<and> version t \<noteq> nv
              then t\<lparr>is_active := False\<rparr> else t) db"

text \<open>
  \<open>perform_create\<close>: the two statements in order. The result is the created row (or the
  exception) and the store.
\<close>

definition perform_create ::
  "nat \<Rightarrow> nat \<Rightarrow> store \<Rightarrow> validated_data \<Rightarrow> (api_error + template) \<times> store" where
  "perform_create new_id now db vd =
     (let cd = v_code vd;
          lang = language_or_default (v_language vd);
          nv = next_version db cd lang;
          t = new_row new_id now vd nv
      in case insert_row db t of
           Inl e \<Rightarrow> (Inl e, db)
         | Inr db1 \<Rightarrow> (Inr t, deactivate_others db1 cd lang nv))"

text \<open>
  The stores that \<open>perform_create\<close> leaves behind, statement by statement: the source opens
  no transaction around the two statements, so each is a state of the table on its own.
\<close>

definition perform_create_states :: "nat \<Rightarrow> nat \<Rightarrow> store \<Rightarrow> validated_data \<Rightarrow> store list" where
  "perform_create_states new_id now db vd =
     (let cd = v_code vd;
          lang = language_or_default (v_language vd);
          nv = next_version db cd lang;
          t = new_row new_id now vd nv
      in case insert_row db t of
           Inl e \<Rightarrow> [db]
         | Inr db1 \<Rightarrow> [db, db1, deactivate_others db1 cd lang nv])"

text \<open>\<open>TemplateListCreateView.create\<close>: validate, then \<open>perform_create\<close>, then answer 201.\<close>

definition create ::
  "engine \<Rightarrow> nat \<Rightarrow> nat \<Rightarrow> store \<Rightarrow> payload \<Rightarrow> template response \<times> store" where
  "create DjangoTemplate new_id now db p =
     (case is_valid DjangoTemplate p of
        None \<Rightarrow> (Raised ValidationError, db)
      | Some vd \<Rightarrow>
          (case perform_create new_id now db vd of
             (Inl e, db') \<Rightarrow> (Raised e, db')
           | (Inr t, db') \<Rightarrow>
               (Response 201 (envelope_response True (Some t) ''Template created'' None None),
                db')))"

section \<open>Direct row access (TemplateDetailView)\<close>

text \<open>\<open>self.get_object()\<close>: the row with the key of the URL, or \<open>Http404\<close>.\<close>

definition get_object :: "store \<Rightarrow> nat \<Rightarrow> template option" where
  "get_object db pk = find (\<lambda>t. uid t = pk) db"

text \<open>
  \<open>serializer.save()\<close> on an instance: every validated field that was sent overwrites
  the attribute, \<open>updated_at\<close> is \<open>auto_now\<close>. The read-only fields of the payload are not
  looked at.
\<close>

definition apply_update :: "nat \<Rightarrow> template \<Rightarrow> payload \<Rightarrow> template" where
  "apply_update now t p =
     t\<lparr>code := (case p_code p of None \<Rightarrow> code t | Some s \<Rightarrow> s),
       name := (case p_name p of None \<Rightarrow> name t | Some s \<Rightarrow> s),
       language := (case p_language p of None \<Rightarrow> language t | Some s \<Rightarrow> s),
       subject := (case p_subject p of None \<Rightarrow> subject t | Some s \<Rightarrow> s),
       content := (case p_content p of None \<Rightarrow> content t | Some s \<Rightarrow> s),
       updated_at := now\<rparr>"

text \<open>
  The UPDATE of one row: the store refuses it when another row already has the new
  \<open>(code, language, version)\<close> (the serializer's own validators are switched off).
\<close>

definition update_row :: "store \<Rightarrow> template \<Rightarrow> api_error + store" where
  "update_row db t' =
     (if (code t', language t', version t')
           \<in> set (map (\<lambda>u. (code u, language u, version u)) (filter (\<lambda>u. uid u \<noteq> uid t') db))
      then Inl IntegrityError
      else Inr (map (\<lambda>u. if uid u = uid t' then t' else u) db))"

text \<open>\<open>TemplateDetailView.update\<close>; \<open>partial\<close> is \<open>True\<close> for PATCH and \<open>False\<close> for PUT.\<close>

definition update ::
  "engine \<Rightarrow> bool \<Rightarrow> nat \<Rightarrow> store \<Rightarrow> nat \<Rightarrow> payload \<Rightarrow> template response \<times> store" where
  "update DjangoTemplate partial now db pk p =
     (case get_object db pk of
        None \<Rightarrow> (Raised NotFound, db)
      | Some instance \<Rightarrow>
          if \<not> (if partial then is_valid_partial DjangoTemplate p
                 else is_valid DjangoTemplate p \<noteq> None)
          then (Raised ValidationError, db)
          else (let t' = apply_update now instance p
                in case update_row db t' of
                     Inl e \<Rightarrow> (Raised e, db)
                   | Inr db' \<Rightarrow>
                       (Response 200
                          (envelope_response True (Some t') ''Template updated'' None None),
                        db')))"

text \<open>\<open>TemplateDetailView.destroy\<close>\<close>

definition destroy :: "store \<Rightarrow> nat \<Rightarrow> template response \<times> store" where
  "destroy db pk =
     (case get_object db pk of
        None \<Rightarrow> (Raised NotFound, db)
      | Some instance \<Rightarrow>
          (Response 204 (envelope_response True None ''Template deleted'' None None),
           filter (\<lambda>t. uid t \<noteq> pk) db))"

section \<open>Listing the versions of a code (TemplateVersionListView)\<close>

text \<open>
  \<open>get_queryset\<close>: the rows of the code in the language of the query string (default
  \<open>en\<close>), newest first.
\<close>

definition get_queryset :: "store \<Rightarrow> string \<Rightarrow> string option \<Rightarrow> template list" where
  "get_queryset db cd lang =
     order_by_version_desc (filter_group db cd (language_or_default lang))"

text \<open>
  The page that \<open>self.paginate_queryset\<close> hands back: its rows and, when the object has
  them, the attributes \<open>_build_pagination_meta\<close> reads.
\<close>

record page_obj =
  items :: "template list"
  info :: "pagination_meta option"

text \<open>
  The paginator belongs to the framework and its page size to the settings, so it is a
  parameter: it raises (an invalid page number), declines (\<open>None\<close>: pagination is off) or
  returns a page.
\<close>

type_synonym paginator = "template list \<Rightarrow> api_error + page_obj option"

text \<open>\<open>_build_pagination_meta\<close>: \<open>{}\<close> for no page and on \<open>AttributeError\<close>.\<close>

definition build_pagination_meta :: "page_obj option \<Rightarrow> pagination_meta option" where
  "build_pagination_meta pg = (case pg of None \<Rightarrow> None | Some pobj \<Rightarrow> info pobj)"

text \<open>\<open>TemplateVersionListView.list\<close>\<close>

definition list_versions ::
  "paginator \<Rightarrow> store \<Rightarrow> string \<Rightarrow> string option \<Rightarrow> template list response" where
  "list_versions paginate_queryset db cd lang =
     (let queryset = get_queryset db cd lang
      in case paginate_queryset queryset of
           Inl e \<Rightarrow> Raised e
         | Inr (Some pg) \<Rightarrow>
             Response 200
               (envelope_response True (Some (items pg)) ''Versions retrieved'' None
                  (build_pagination_meta (Some pg)))
         | Inr None \<Rightarrow>
             Response 200
               (envelope_response True (Some queryset) ''Versions retrieved'' None None))"

section \<open>Rendering (RenderTemplateView)\<close>

text \<open>The body of a render request; \<open>None\<close> is a key the client did not send.\<close>

record render_request =
  r_code :: "string option"
  r_variables :: "variables option"
  r_language :: "string option"

text \<open>The dictionary \<open>data\<close> of a successful render.\<close>

record render_data =
  rd_code :: string
  rd_subject :: "string option"
  rd_content :: string
  rd_version :: int
  rd_language :: string

text \<open>
  \<open>RenderTemplateView.post\<close>. \<open>not code\<close> holds for a missing and for an empty code. Only
  \<open>template.content\<close> is compiled and rendered; \<open>data["subject"]\<close> is \<open>template.subject\<close>.
  Compiling and rendering stand in one \<open>try\<close> whose \<open>except\<close> catches
  \<open>TemplateSyntaxError\<close> from either and answers 500; any other exception of the
  rendering leaves the view.
\<close>

definition render_post :: "engine \<Rightarrow> store \<Rightarrow> render_request \<Rightarrow> render_data response" where
  "render_post DjangoTemplate db request =
     (let cd = r_code request;
          variables = (case r_variables request of None \<Rightarrow> [] | Some v \<Rightarrow> v);
          lang = language_or_default (r_language request)
      in case cd of
           None \<Rightarrow>
             Response 400 (envelope_response False None ''Missing code'' (Some ''missing_code'') None)
         | Some c \<Rightarrow>
             if c = [] then
               Response 400
                 (envelope_response False None ''Missing code'' (Some ''missing_code'') None)
             else
               (case latest_by_version (filter_active db c lang) of
                  None \<Rightarrow>
                    Response 404
                      (envelope_response False None ''Template not found'' (Some ''not_found'') None)
                | Some template \<Rightarrow>
                    (case DjangoTemplate (content template) of
                       None \<Rightarrow>
                         Response 500
                           (envelope_response False None ''Template render error''
                              (Some ''render_error'') None)
                     | Some django_template \<Rightarrow>
                         (case django_template variables of
                            Inl RenderSyntaxError \<Rightarrow>
                              Response 500
                                (envelope_response False None ''Template render error''
                                   (Some ''render_error'') None)
                          | Inl RenderException \<Rightarrow> Raised UnhandledException
                          | Inr rendered_content \<Rightarrow>
                              Response 200
                                (envelope_response True
                                   (Some \<lparr>rd_code = code template,
                                          rd_subject = subject template,
                                          rd_content = rendered_content,
                                          rd_version = version template,
                                          rd_language = language template\<rparr>)
                                   ''Template rendered successfully'' None None)))))"

section \<open>A small engine for concrete runs\<close>

text \<open>
  An instance of the engine parameter: it knows \<open>{{name}}\<close> placeholders only, refuses a
  placeholder that is not closed and every block tag \<open>{% ... %}\<close>, and renders a name
  that the variables do not bind as the empty text.
\<close>

datatype node = TextNode string | VariableNode string

definition text_nodes :: "string \<Rightarrow> node list" where
  "text_nodes acc = (if acc = [] then [] else [TextNode acc])"

fun scan :: "bool \<Rightarrow> string \<Rightarrow> string \<Rightarrow> node list option" where
  "scan False acc [] = Some (text_nodes acc)"
| "scan True acc [] = None"
| "scan False acc [c] = Some (text_nodes (acc @ [c]))"
| "scan True acc [c] = None"
| "scan False acc (c # d # cs) =
     (if c = CHR ''{'' \<and> d = CHR ''{''
      then map_option (\<lambda>ns. text_nodes acc @ ns) (scan True [] cs)
      else if c = CHR ''{'' \<and> d = CHR ''%'' then None
      else scan False (acc @ [c]) (d # cs))"
| "scan True acc (c # d # cs) =
     (if c = CHR ''}'' \<and> d = CHR ''}''
      then map_option (\<lambda>ns. VariableNode acc # ns) (scan False [] cs)
      else scan True (acc @ [c]) (d # cs))"

fun render_node :: "variables \<Rightarrow> node \<Rightarrow> string" where
  "render_node vs (TextNode s) = s"
| "render_node vs (VariableNode v) = (case map_of vs v of None \<Rightarrow> [] | Some x \<Rightarrow> x)"

definition placeholder_engine :: engine where
  "placeholder_engine s =
     map_option (\<lambda>ns vs. Inr (concat (map (render_node vs) ns))) (scan False [] s)"


section \<open>Sequences of requests\<close>




section \<open>Request bodies for concrete runs\<close>

text \<open>A body as a client sends it: no read-only field, the name fixed.\<close>

definition client_payload :: "string \<Rightarrow> string option \<Rightarrow> string option \<Rightarrow> string \<Rightarrow> payload" where
  "client_payload cd lang subj ct =
     \<lparr>p_id = None, p_code = Some cd, p_name = Some ''Test'', p_language = lang,
      p_subject = map_option Some subj, p_content = Some ct, p_version = None,
      p_is_active = None, p_created_at = None, p_updated_at = None\<rparr>"

section \<open>The lifecycle of the table\<close>

text \<open>
  The requests that go through the version logic or remove a row: a create (with the key
  drawn and the clock) and a delete by key. The store after serving a list of them.
\<close>

datatype lifecycle_op = Create nat nat payload | Destroy nat

fun run_lifecycle :: "engine \<Rightarrow> store \<Rightarrow> lifecycle_op list \<Rightarrow> store" where
  "run_lifecycle DjangoTemplate db [] = db"
| "run_lifecycle DjangoTemplate db (Create new_id now p # ops) =
     run_lifecycle DjangoTemplate (snd (create DjangoTemplate new_id now db p)) ops"
| "run_lifecycle DjangoTemplate db (Destroy pk # ops) =
     run_lifecycle DjangoTemplate (snd (destroy db pk)) ops"

text \<open>A body with no field; a PATCH sends this with the fields to change filled in.\<close>

definition empty_payload :: payload where
  "empty_payload =
     \<lparr>p_id = None, p_code = None, p_name = None, p_language = None, p_subject = None,
      p_content = None, p_version = None, p_is_active = None, p_created_at = None,
      p_updated_at = None\<rparr>"

section \<open>Facts about the queryset operations\<close>

lemma first_row_None_iff: "first_row xs = None \<longleftrightarrow> xs = []"
  by (simp add: first_row_def split: list.splits)

lemma order_by_version_desc_Nil_iff: "order_by_version_desc ts = [] \<longleftrightarrow> ts = []"
  by (metis length_0_conv length_sort order_by_version_desc_def)

lemma set_order_by_version_desc: "set (order_by_version_desc ts) = set ts"
  by (simp add: order_by_version_desc_def)

lemma mset_order_by_version_desc: "mset (order_by_version_desc ts) = mset ts"
  by (simp add: order_by_version_desc_def)

lemma sorted_order_by_version_desc:
  "sorted (map (\<lambda>t. - version t) (order_by_version_desc ts))"
  by (simp add: order_by_version_desc_def)

lemma latest_by_version_None_iff: "latest_by_version ts = None \<longleftrightarrow> ts = []"
  by (simp add: latest_by_version_def first_row_None_iff order_by_version_desc_Nil_iff)

lemma latest_by_version_Some:
  assumes "latest_by_version ts = Some t"
  shows "t \<in> set ts" and "\<forall>u\<in>set ts. version u \<le> version t"
proof -
  from assms obtain rest where eq: "order_by_version_desc ts = t # rest"
    by (auto simp: latest_by_version_def first_row_def split: list.splits)
  have "t \<in> set (order_by_version_desc ts)" by (simp add: eq)
  then show "t \<in> set ts" by (simp add: set_order_by_version_desc)
  have "sorted (map (\<lambda>t. - version t) (t # rest))"
    using sorted_order_by_version_desc [of ts] by (simp add: eq)
  then have "\<forall>u\<in>set (t # rest). version u \<le> version t" by auto
  then show "\<forall>u\<in>set ts. version u \<le> version t"
    by (metis eq set_order_by_version_desc)
qed

lemma latest_by_version_Max:
  assumes "latest_by_version ts = Some t"
  shows "version t = Max (version ` set ts)"
proof -
  have "Max (version ` set ts) = version t"
  proof (rule Max_eqI)
    show "finite (version ` set ts)" by simp
    show "\<And>y. y \<in> version ` set ts \<Longrightarrow> y \<le> version t"
      using latest_by_version_Some(2) [OF assms] by auto
    show "version t \<in> version ` set ts"
      using latest_by_version_Some(1) [OF assms] by simp
  qed
  then show ?thesis by simp
qed

lemma next_version_latest:
  "next_version db cd lang =
     (case latest_by_version (filter_group db cd lang) of None \<Rightarrow> 1 | Some t \<Rightarrow> version t + 1)"
  by (simp add: next_version_def latest_by_version_def)

lemma next_version_Max:
  "next_version db cd lang =
     (if filter_group db cd lang = [] then 1
      else Max (version ` set (filter_group db cd lang)) + 1)"
proof (cases "latest_by_version (filter_group db cd lang)")
  case None
  then have e: "filter_group db cd lang = []"
    by (simp add: latest_by_version_None_iff)
  have "next_version db cd lang = 1"
    by (simp only: next_version_latest None option.case)
  with e show ?thesis by (simp only: simp_thms if_True)
next
  case (Some t)
  then have "filter_group db cd lang \<noteq> []"
    by (auto simp: latest_by_version_def first_row_def order_by_version_desc_def)
  moreover have "next_version db cd lang = version t + 1"
    by (simp only: next_version_latest Some option.case)
  ultimately show ?thesis
    using latest_by_version_Max [OF Some] by (simp only: simp_thms if_False)
qed

lemma next_version_greater:
  "u \<in> set (filter_group db cd lang) \<Longrightarrow> version u < next_version db cd lang"
proof -
  assume u: "u \<in> set (filter_group db cd lang)"
  then have ne: "filter_group db cd lang \<noteq> []" by auto
  have "version u \<le> Max (version ` set (filter_group db cd lang))"
    using u by (intro Max_ge) auto
  then show ?thesis using ne by (simp add: next_version_Max)
qed

section \<open>Facts about creating a version\<close>












section \<open>Facts about the active rows\<close>

lemma filter_active_deactivate_others_same:
  "filter_active (deactivate_others db c l nv) c l =
     filter (\<lambda>u. code u = c \<and> language u = l \<and> is_active u \<and> version u = nv) db"
  by (induction db) (auto simp: filter_active_def deactivate_others_def)



lemma no_row_at_next_version:
  "filter (\<lambda>u. code u = c \<and> language u = l \<and> is_active u \<and> version u = next_version db c l) db = []"
proof -
  have "\<forall>u\<in>set db. \<not> (code u = c \<and> language u = l \<and> is_active u \<and> version u = next_version db c l)"
  proof
    fix u assume "u \<in> set db"
    show "\<not> (code u = c \<and> language u = l \<and> is_active u \<and> version u = next_version db c l)"
    proof
      assume a: "code u = c \<and> language u = l \<and> is_active u \<and> version u = next_version db c l"
      with \<open>u \<in> set db\<close> have "u \<in> set (filter_group db c l)"
        by (simp add: filter_group_def)
      then have "version u < next_version db c l" by (rule next_version_greater)
      with a show False by simp
    qed
  qed
  then show ?thesis by (simp add: filter_empty_conv)
qed








section \<open>Facts about the two statements of perform_create\<close>

lemma perform_create_Inl:
  assumes "perform_create new_id now db vd = (Inl e, db')"
  shows "db' = db" and "perform_create_states new_id now db vd = [db]"
  using assms
  by (auto simp: perform_create_def perform_create_states_def Let_def split: sum.splits)

lemma perform_create_Inr:
  assumes "perform_create new_id now db vd = (Inr t, db')"
  shows "t = new_row new_id now vd (next_version db (v_code vd) (language_or_default (v_language vd)))"
    and "db' = deactivate_others (db @ [t]) (code t) (language t) (version t)"
    and "perform_create_states new_id now db vd = [db, db @ [t], db']"
proof -
  let ?t = "new_row new_id now vd (next_version db (v_code vd) (language_or_default (v_language vd)))"
  from assms obtain db1 where ins: "insert_row db ?t = Inr db1"
    by (auto simp: perform_create_def Let_def split: sum.splits)
  then have db1: "db1 = db @ [?t]"
    by (simp add: insert_row_def split: if_splits)
  from assms ins show t: "t = ?t"
    by (simp add: perform_create_def Let_def)
  have ct: "code ?t = v_code vd" "language ?t = language_or_default (v_language vd)"
    "version ?t = next_version db (v_code vd) (language_or_default (v_language vd))"
    by (simp_all add: new_row_def)
  from assms ins show d: "db' = deactivate_others (db @ [t]) (code t) (language t) (version t)"
    unfolding t ct by (simp add: perform_create_def Let_def db1)
  from ins show "perform_create_states new_id now db vd = [db, db @ [t], db']"
    unfolding d unfolding t ct by (simp add: perform_create_states_def Let_def db1)
qed

lemma perform_create_last_state:
  "snd (perform_create new_id now db vd) = last (perform_create_states new_id now db vd)"
  by (simp add: perform_create_def perform_create_states_def Let_def split: sum.splits)

lemma perform_create_active:
  assumes "perform_create new_id now db vd = (Inr t, db')"
  shows "filter_active (db @ [t]) (code t) (language t) = filter_active db (code t) (language t) @ [t]"
    and "filter_active db' (code t) (language t) = [t]"
proof -
  note t = perform_create_Inr(1) [OF assms] and d = perform_create_Inr(2) [OF assms]
  have vt: "version t = next_version db (code t) (language t)" and act: "is_active t"
    by (simp_all add: t new_row_def)
  show "filter_active (db @ [t]) (code t) (language t) = filter_active db (code t) (language t) @ [t]"
    by (simp add: filter_active_def act)
  have "filter_active db' (code t) (language t) =
      filter (\<lambda>u. code u = code t \<and> language u = language t \<and> is_active u \<and> version u = version t) db @ [t]"
    by (simp add: d filter_active_deactivate_others_same act)
  also have "\<dots> = [t]"
    using no_row_at_next_version [of "code t" "language t" db] by (simp add: vt)
  finally show "filter_active db' (code t) (language t) = [t]" .
qed

section \<open>Facts about the render view\<close>

lemma render_post_missing_code:
  "r_code req = None \<or> r_code req = Some [] \<Longrightarrow>
   render_post E db req =
     Response 400 (envelope_response False None ''Missing code'' (Some ''missing_code'') None)"
  by (auto simp: render_post_def Let_def)

lemma render_post_not_found:
  "r_code req = Some c \<Longrightarrow> c \<noteq> [] \<Longrightarrow>
   latest_by_version (filter_active db c (language_or_default (r_language req))) = None \<Longrightarrow>
   render_post E db req =
     Response 404 (envelope_response False None ''Template not found'' (Some ''not_found'') None)"
  by (simp add: render_post_def Let_def)

lemma render_post_compile_error:
  "r_code req = Some c \<Longrightarrow> c \<noteq> [] \<Longrightarrow>
   latest_by_version (filter_active db c (language_or_default (r_language req))) = Some t \<Longrightarrow>
   E (content t) = None \<Longrightarrow>
   render_post E db req =
     Response 500 (envelope_response False None ''Template render error'' (Some ''render_error'') None)"
  by (simp add: render_post_def Let_def)

lemma render_post_render_syntax_error:
  "r_code req = Some c \<Longrightarrow> c \<noteq> [] \<Longrightarrow>
   latest_by_version (filter_active db c (language_or_default (r_language req))) = Some t \<Longrightarrow>
   E (content t) = Some f \<Longrightarrow>
   f (case r_variables req of None \<Rightarrow> [] | Some v \<Rightarrow> v) = Inl RenderSyntaxError \<Longrightarrow>
   render_post E db req =
     Response 500 (envelope_response False None ''Template render error'' (Some ''render_error'') None)"
  by (simp add: render_post_def Let_def)

lemma render_post_render_exception:
  "r_code req = Some c \<Longrightarrow> c \<noteq> [] \<Longrightarrow>
   latest_by_version (filter_active db c (language_or_default (r_language req))) = Some t \<Longrightarrow>
   E (content t) = Some f \<Longrightarrow>
   f (case r_variables req of None \<Rightarrow> [] | Some v \<Rightarrow> v) = Inl RenderException \<Longrightarrow>
   render_post E db req = Raised UnhandledException"
  by (simp add: render_post_def Let_def)

lemma render_post_ok:
  "r_code req = Some c \<Longrightarrow> c \<noteq> [] \<Longrightarrow>
   latest_by_version (filter_active db c (language_or_default (r_language req))) = Some t \<Longrightarrow>
   E (content t) = Some f \<Longrightarrow>
   f (case r_variables req of None \<Rightarrow> [] | Some v \<Rightarrow> v) = Inr s \<Longrightarrow>
   render_post E db req =
     Response 200
       \<lparr>success = True,
        data = Some \<lparr>rd_code = code t, rd_subject = subject t, rd_content = s,
                     rd_version = version t, rd_language = language t\<rparr>,
        error = None, message = ''Template rendered successfully'', meta = None\<rparr>"
  by (simp add: render_post_def Let_def envelope_response_def)

text \<open>What an active row makes of a request, outcome by outcome of the engine.\<close>

lemma render_post_resolved:
  assumes "r_code req = Some c" and "c \<noteq> []"
    and "latest_by_version (filter_active db c (language_or_default (r_language req))) = Some t"
  shows "case E (content t) of
        None \<Rightarrow> http_status (render_post E db req) = 500
      | Some f \<Rightarrow>
          (case f (case r_variables req of None \<Rightarrow> [] | Some v \<Rightarrow> v) of
             Inl e \<Rightarrow> http_status (render_post E db req) = 500
           | Inr s \<Rightarrow>
               render_post E db req =
                 Response 200
                   \<lparr>success = True,
                    data = Some \<lparr>rd_code = code t, rd_subject = subject t, rd_content = s,
                                 rd_version = version t, rd_language = language t\<rparr>,
                    error = None, message = ''Template rendered successfully'',
                    meta = None\<rparr>)"
proof (cases "E (content t)")
  case None
  then show ?thesis
    using render_post_compile_error [OF assms(1,2,3)] by simp
next
  case (Some f)
  let ?vs = "case r_variables req of None \<Rightarrow> [] | Some v \<Rightarrow> v"
  show ?thesis
  proof (cases "f ?vs")
    case (Inl e)
    have "http_status (render_post E db req) = 500"
    proof (cases e)
      case RenderSyntaxError
      with Inl show ?thesis
        using render_post_render_syntax_error [of req c db t E f] assms Some by simp
    next
      case RenderException
      with Inl show ?thesis
        using render_post_render_exception [of req c db t E f] assms Some by simp
    qed
    with Some Inl show ?thesis by simp
  next
    case (Inr s)
    then show ?thesis
      using render_post_ok [of req c db t E f s] assms Some by simp
  qed
qed

lemma render_post_200:
  assumes "http_status (render_post E db req) = 200"
  obtains c t f s where "r_code req = Some c" and "c \<noteq> []"
    and "latest_by_version (filter_active db c (language_or_default (r_language req))) = Some t"
    and "E (content t) = Some f"
    and "f (case r_variables req of None \<Rightarrow> [] | Some v \<Rightarrow> v) = Inr s"
proof (cases "r_code req")
  case None
  with assms show ?thesis by (simp add: render_post_missing_code)
next
  case (Some c)
  show ?thesis
  proof (cases "c = []")
    case True
    with Some assms show ?thesis by (simp add: render_post_missing_code)
  next
    case ne: False
    show ?thesis
    proof (cases "latest_by_version (filter_active db c (language_or_default (r_language req)))")
      case None
      with Some ne assms show ?thesis by (simp add: render_post_not_found)
    next
      case t: (Some t)
      note res = render_post_resolved [OF Some ne t, of E]
      show ?thesis
      proof (cases "E (content t)")
        case None
        with res assms show ?thesis by simp
      next
        case f: (Some f)
        show ?thesis
        proof (cases "f (case r_variables req of None \<Rightarrow> [] | Some v \<Rightarrow> v)")
          case (Inl e)
          with res f assms show ?thesis by simp
        next
          case (Inr s)
          with \<open>r_code req = Some c\<close> ne t f that show ?thesis by blast
        qed
      qed
    qed
  qed
qed

section \<open>Facts about the outcomes of a render\<close>





section \<open>Facts about resolving the active row\<close>

lemma unique_together_eq:
  assumes "unique_together db" and "u \<in> set db" and "t \<in> set db"
    and "code u = code t" and "language u = language t" and "version u = version t"
  shows "u = t"
proof -
  have "inj_on (\<lambda>t. (code t, language t, version t)) (set db)"
    using assms(1) by (simp add: unique_together_def distinct_map)
  then show ?thesis using assms(2-6) by (auto dest: inj_onD)
qed



section \<open>Facts about the version listing\<close>

lemma mset_get_queryset:
  "mset (get_queryset db c lang) = mset (filter_group db c (language_or_default lang))"
  by (simp add: get_queryset_def mset_order_by_version_desc)

lemma order_by_version_desc_descending:
  "sorted_wrt (\<lambda>a b. version b \<le> version a) (order_by_version_desc ts)"
proof -
  have "sorted_wrt (\<le>) (map (\<lambda>t. - version t) (order_by_version_desc ts))"
    using sorted_order_by_version_desc [of ts] by simp
  then show ?thesis by (simp add: sorted_wrt_map)
qed

lemma unique_together_distinct_versions:
  assumes "unique_together db"
  shows "distinct (map version (filter_group db c l))"
proof -
  have d: "distinct db" and inj: "inj_on (\<lambda>t. (code t, language t, version t)) (set db)"
    using assms by (simp_all add: unique_together_def distinct_map)
  have "inj_on version (set (filter_group db c l))"
  proof (rule inj_onI)
    fix u t assume "u \<in> set (filter_group db c l)" "t \<in> set (filter_group db c l)"
      and "version u = version t"
    then show "u = t"
      using unique_together_eq [OF assms, of u t] by (simp add: filter_group_def)
  qed
  moreover have "distinct (filter_group db c l)"
    using d by (simp add: filter_group_def)
  ultimately show ?thesis by (simp add: distinct_map)
qed

lemma descending_distinct_strict:
  "sorted_wrt (\<lambda>a b. version b \<le> version a) xs \<Longrightarrow> distinct (map version xs) \<Longrightarrow>
   sorted_wrt (\<lambda>a b. version b < version a) (xs :: template list)"
proof (induction xs)
  case Nil
  then show ?case by simp
next
  case (Cons a xs)
  have "\<forall>b\<in>set xs. version b < version a"
  proof
    fix b assume b: "b \<in> set xs"
    with Cons.prems(1) have "version b \<le> version a" by simp
    moreover from Cons.prems(2) have "version a \<notin> version ` set xs" by simp
    with b have "version b \<noteq> version a" by (metis imageI)
    ultimately show "version b < version a" by simp
  qed
  with Cons show ?case by simp
qed

lemma order_by_version_desc_strict:
  assumes "distinct (map version ts)"
  shows "sorted_wrt (\<lambda>a b. version b < version a) (order_by_version_desc ts)"
proof -
  have "mset (map version (order_by_version_desc ts)) = mset (map version ts)"
    by (simp add: mset_order_by_version_desc)
  then have "distinct (map version (order_by_version_desc ts))"
    using assms by (metis mset_eq_imp_distinct_iff)
  with order_by_version_desc_descending show ?thesis
    by (rule descending_distinct_strict)
qed

section \<open>Facts about validation at create time\<close>

lemma create_invalid_content:
  assumes "p_content p = Some ct" and "DjangoTemplate ct = None"
  shows "create DjangoTemplate new_id now db p = (Raised ValidationError, db)"
proof -
  have "\<not> fields_valid DjangoTemplate p"
    using assms by (simp add: fields_valid_def validate_content_def)
  then have "is_valid DjangoTemplate p = None"
    by (simp add: is_valid_def split: option.splits)
  then show ?thesis by (simp add: create_def)
qed

lemma is_valid_subject_free:
  assumes "length s \<le> 255"
  shows "(is_valid DjangoTemplate (p\<lparr>p_subject := Some (Some s)\<rparr>) = None) =
         (is_valid DjangoTemplate (p\<lparr>p_subject := None\<rparr>) = None)"
  using assms by (simp add: is_valid_def fields_valid_def split: option.splits)

section \<open>Facts about direct updates\<close>

lemma get_object_unique:
  assumes "unique_pk db" and "get_object db pk = Some inst" and "u \<in> set db" and "uid u = pk"
  shows "u = inst"
proof -
  from assms(2) have "inst \<in> set db" and "uid inst = pk"
    by (auto simp: get_object_def find_Some_iff)
  moreover have "inj_on uid (set db)"
    using assms(1) by (simp add: unique_pk_def distinct_map)
  ultimately show ?thesis using assms(3,4) by (auto dest: inj_onD)
qed

text \<open>The row that a save writes, field by field.\<close>

lemma apply_update_fields:
  "apply_update now t p =
     \<lparr>uid = uid t,
      code = (case p_code p of None \<Rightarrow> code t | Some s \<Rightarrow> s),
      name = (case p_name p of None \<Rightarrow> name t | Some s \<Rightarrow> s),
      language = (case p_language p of None \<Rightarrow> language t | Some s \<Rightarrow> s),
      subject = (case p_subject p of None \<Rightarrow> subject t | Some s \<Rightarrow> s),
      content = (case p_content p of None \<Rightarrow> content t | Some s \<Rightarrow> s),
      version = version t, is_active = is_active t, created_at = created_at t,
      updated_at = now\<rparr>"
  by (simp add: apply_update_def)

lemma update_cases:
  assumes "update E partial now db pk p = (r, db')"
  obtains (unchanged) "db' = db"
  | (saved) inst where "get_object db pk = Some inst"
      and "db' = map (\<lambda>u. if uid u = pk then apply_update now inst p else u) db"
      and "r = Response 200
             (envelope_response True (Some (apply_update now inst p)) ''Template updated'' None None)"
proof (cases "get_object db pk")
  case None
  with assms have "db' = db" by (simp add: update_def)
  then show ?thesis by (rule unchanged)
next
  case (Some inst)
  have u: "uid (apply_update now inst p) = uid inst"
    by (simp add: apply_update_def)
  from Some have pk: "uid inst = pk"
    by (auto simp: get_object_def find_Some_iff)
  show ?thesis
  proof (cases "update_row db (apply_update now inst p)")
    case (Inl e)
    with assms Some have "db' = db"
      by (auto simp: update_def Let_def split: if_splits)
    then show ?thesis by (rule unchanged)
  next
    case (Inr db1)
    then have db1: "db1 = map (\<lambda>u. if uid u = pk then apply_update now inst p else u) db"
      by (simp add: update_row_def u pk split: if_splits)
    show ?thesis
    proof (cases "if partial then is_valid_partial E p else is_valid E p \<noteq> None")
      case True
      with assms Some Inr have "db' = db1"
        and "r = Response 200
             (envelope_response True (Some (apply_update now inst p)) ''Template updated'' None None)"
        by (auto simp: update_def Let_def split: if_splits)
      with Some db1 show ?thesis by (intro saved [of inst]) simp_all
    next
      case False
      with assms Some have "db' = db" by (auto simp: update_def split: if_splits)
      then show ?thesis by (rule unchanged)
    qed
  qed
qed

lemma update_raised:
  assumes "update E partial now db pk p = (Raised e, db')"
  shows "db' = db"
  using assms
proof (cases rule: update_cases)
  case unchanged
  then show ?thesis .
next
  case (saved inst)
  then show ?thesis by simp
qed

lemma update_response:
  assumes "update E partial now db pk p = (Response st env, db')"
  obtains inst where "get_object db pk = Some inst"
    and "db' = map (\<lambda>u. if uid u = pk then apply_update now inst p else u) db"
    and "st = 200" and "data env = Some (apply_update now inst p)"
proof (cases "get_object db pk")
  case None
  with assms show ?thesis by (simp add: update_def)
next
  case (Some inst)
  from Some have pk: "uid inst = pk"
    by (auto simp: get_object_def find_Some_iff)
  have u: "uid (apply_update now inst p) = pk"
    by (simp add: apply_update_def pk)
  show ?thesis
  proof (cases "update_row db (apply_update now inst p)")
    case (Inl e)
    with assms Some show ?thesis
      by (auto simp: update_def Let_def split: if_splits)
  next
    case (Inr db1)
    then have db1: "db1 = map (\<lambda>u. if uid u = pk then apply_update now inst p else u) db"
      by (simp add: update_row_def u split: if_splits)
    from assms Some Inr have "db' = db1" and "st = 200"
      and "data env = Some (apply_update now inst p)"
      by (auto simp: update_def Let_def envelope_response_def split: if_splits)
    with Some db1 that show ?thesis by blast
  qed
qed

lemma update_read_only:
  assumes "unique_pk db" and "update E partial now db pk p = (r, db')"
  shows "map (\<lambda>t. (uid t, version t, is_active t, created_at t)) db' =
         map (\<lambda>t. (uid t, version t, is_active t, created_at t)) db"
  using assms(2)
proof (cases rule: update_cases)
  case unchanged
  then show ?thesis by simp
next
  case (saved inst)
  let ?ro = "\<lambda>t. (uid t, version t, is_active t, created_at t)"
  have "?ro (if uid u = pk then apply_update now inst p else u) = ?ro u"
    if "u \<in> set db" for u
  proof (cases "uid u = pk")
    case True
    then have "u = inst" using get_object_unique [OF assms(1) saved(1) that] by simp
    with True show ?thesis by (simp add: apply_update_def)
  next
    case False
    then show ?thesis by simp
  qed
  then show ?thesis unfolding saved(2) by (simp add: o_def)
qed

section \<open>C1: version assignment\<close>



section \<open>C2: one active row per group\<close>




section \<open>C3: the two statements of a create\<close>

text \<open>
  C3 (as amended). A create whose payload fails validation, or whose insert the store
  refuses, leaves the store unchanged. The insert and the deactivation are two
  consecutive statements on the store with no transaction around them: the store after
  the insert holds the new row active beside every row of the group that was active
  before, and in the store after the deactivation the new row is the only active row of
  its group.
\<close>

theorem create_two_statements:
  "(is_valid DjangoTemplate p = None \<longrightarrow>
      create DjangoTemplate new_id now db p = (Raised ValidationError, db)) \<and>
   (perform_create new_id now db vd = (Inl e, db') \<longrightarrow>
      db' = db \<and> perform_create_states new_id now db vd = [db]) \<and>
   (perform_create new_id now db vd = (Inr t, db') \<longrightarrow>
      perform_create_states new_id now db vd = [db, db @ [t], db'] \<and>
      filter_active (db @ [t]) (code t) (language t) =
        filter_active db (code t) (language t) @ [t] \<and>
      filter_active db' (code t) (language t) = [t])"
proof (intro conjI impI)
  assume "is_valid DjangoTemplate p = None"
  then show "create DjangoTemplate new_id now db p = (Raised ValidationError, db)"
    by (simp add: create_def)
next
  assume a: "perform_create new_id now db vd = (Inl e, db')"
  show "db' = db" by (rule perform_create_Inl(1) [OF a])
  show "perform_create_states new_id now db vd = [db]" by (rule perform_create_Inl(2) [OF a])
next
  assume a: "perform_create new_id now db vd = (Inr t, db')"
  show "perform_create_states new_id now db vd = [db, db @ [t], db']"
    by (rule perform_create_Inr(3) [OF a])
  show "filter_active (db @ [t]) (code t) (language t) =
        filter_active db (code t) (language t) @ [t]"
    by (rule perform_create_active(1) [OF a])
  show "filter_active db' (code t) (language t) = [t]"
    by (rule perform_create_active(2) [OF a])
qed

theorem create_not_atomic_counterexample:
  "map (\<lambda>u. (version u, is_active u))
     (filter_active
        (perform_create_states 2 11
           (snd (create placeholder_engine 1 10 []
              (client_payload ''test'' None (Some ''Test'') ''{{value}}'')))
           \<lparr>v_code = ''test'', v_name = ''Test'', v_language = None, v_subject = None,
            v_content = ''Updated {{value}}''\<rparr> ! 1)
        ''test'' ''en'') = [(1, True), (2, True)]"
  by code_simp


theorem create_two_statements_witness:
  "create placeholder_engine 1 10 []
      (client_payload ''bad'' None None ''{% for x in y %}{{x}}'') = (Raised ValidationError, []) \<and>
   perform_create_states 1 12
      (snd (create placeholder_engine 1 10 []
         (client_payload ''test'' None (Some ''Test'') ''{{value}}'')))
      \<lparr>v_code = ''test'', v_name = ''Test'', v_language = None, v_subject = None,
       v_content = ''Updated {{value}}''\<rparr>
     = [snd (create placeholder_engine 1 10 []
         (client_payload ''test'' None (Some ''Test'') ''{{value}}''))] \<and>
   length (perform_create_states 2 11
      (snd (create placeholder_engine 1 10 []
         (client_payload ''test'' None (Some ''Test'') ''{{value}}'')))
      \<lparr>v_code = ''test'', v_name = ''Test'', v_language = None, v_subject = None,
       v_content = ''Updated {{value}}''\<rparr>) = 3 \<and>
   map version (filter_active
      (snd (perform_create 2 11
         (snd (create placeholder_engine 1 10 []
            (client_payload ''test'' None (Some ''Test'') ''{{value}}'')))
         \<lparr>v_code = ''test'', v_name = ''Test'', v_language = None, v_subject = None,
          v_content = ''Updated {{value}}''\<rparr>))
      ''test'' ''en'') = [2]"
proof -
  let ?bad = "client_payload ''bad'' None None ''{% for x in y %}{{x}}''"
  let ?db1 = "snd (create placeholder_engine 1 10 []
         (client_payload ''test'' None (Some ''Test'') ''{{value}}''))"
  let ?vd = "\<lparr>v_code = ''test'', v_name = ''Test'', v_language = None, v_subject = None,
       v_content = ''Updated {{value}}''\<rparr>"
  let ?dup = "perform_create 1 12 ?db1 ?vd"
  let ?ok = "perform_create 2 11 ?db1 ?vd"
  have "is_valid placeholder_engine ?bad = None" by code_simp
  then have first: "create placeholder_engine 1 10 [] ?bad = (Raised ValidationError, [])"
    using create_two_statements [of placeholder_engine ?bad 1 10 "[]"] by blast
  have "isl (fst ?dup)" by code_simp
  then have "?dup = (Inl (projl (fst ?dup)), snd ?dup)" by simp
  then have second: "perform_create_states 1 12 ?db1 ?vd = [?db1]"
    using create_two_statements [of _ _ 1 12 ?db1 ?vd "projl (fst ?dup)" "snd ?dup"] by blast
  define db1 where "db1 = ?db1"
  define okr where "okr = perform_create 2 11 db1 ?vd"
  define t where "t = projr (fst okr)"
  have "\<not> isl (fst okr)" unfolding okr_def db1_def by code_simp
  then have ok: "perform_create 2 11 db1 ?vd = (Inr t, snd okr)"
    unfolding t_def okr_def by simp
  have "map_option code (Some t) = Some ''test''"
    and "map_option language (Some t) = Some ''en''"
    and "map_option version (Some t) = Some 2"
    unfolding t_def okr_def db1_def by code_simp+
  then have ct: "code t = ''test''" "language t = ''en''" "version t = 2" by simp_all
  from ok have "perform_create_states 2 11 db1 ?vd = [db1, db1 @ [t], snd okr]"
    and "filter_active (snd okr) (code t) (language t) = [t]"
    using create_two_statements [of _ _ 2 11 db1 ?vd _ "snd okr" t] by blast+
  then have "length (perform_create_states 2 11 db1 ?vd) = 3"
    and "map version (filter_active (snd okr) ''test'' ''en'') = [2]"
    by (simp_all add: ct)
  then have third: "length (perform_create_states 2 11 ?db1 ?vd) = 3"
    and fourth: "map version (filter_active (snd ?ok) ''test'' ''en'') = [2]"
    unfolding okr_def db1_def by blast+
  from first second third fourth show ?thesis by blast
qed

section \<open>C4: what a successful render returns\<close>

text \<open>
  C4 (as amended). For every render request answered with status 200, the content of the
  row that serves the request is compiled and rendered with the supplied variables (none
  supplied: the empty dictionary), the subject is returned as the row stores it, and the
  response carries the code, the version and the language of that row.
\<close>

theorem render_returns_stored_subject:
  "http_status (render_post DjangoTemplate db req) = 200 \<longrightarrow>
     (\<exists>c t f s. r_code req = Some c \<and>
        latest_by_version (filter_active db c (language_or_default (r_language req))) = Some t \<and>
        DjangoTemplate (content t) = Some f \<and>
        f (case r_variables req of None \<Rightarrow> [] | Some v \<Rightarrow> v) = Inr s \<and>
        response_data (render_post DjangoTemplate db req) =
          Some \<lparr>rd_code = code t, rd_subject = subject t, rd_content = s,
                rd_version = version t, rd_language = language t\<rparr>)"
proof
  assume "http_status (render_post DjangoTemplate db req) = 200"
  then obtain c t f s where h: "r_code req = Some c" "c \<noteq> []"
    "latest_by_version (filter_active db c (language_or_default (r_language req))) = Some t"
    "DjangoTemplate (content t) = Some f"
    "f (case r_variables req of None \<Rightarrow> [] | Some v \<Rightarrow> v) = Inr s"
    by (rule render_post_200)
  have "response_data (render_post DjangoTemplate db req) =
          Some \<lparr>rd_code = code t, rd_subject = subject t, rd_content = s,
                rd_version = version t, rd_language = language t\<rparr>"
    using render_post_ok [of req c db t DjangoTemplate f s] h by simp
  with h show "\<exists>c t f s. r_code req = Some c \<and>
        latest_by_version (filter_active db c (language_or_default (r_language req))) = Some t \<and>
        DjangoTemplate (content t) = Some f \<and>
        f (case r_variables req of None \<Rightarrow> [] | Some v \<Rightarrow> v) = Inr s \<and>
        response_data (render_post DjangoTemplate db req) =
          Some \<lparr>rd_code = code t, rd_subject = subject t, rd_content = s,
                rd_version = version t, rd_language = language t\<rparr>"
    by blast
qed

theorem render_subject_counterexample:
  "http_status (render_post placeholder_engine
          [\<lparr>uid = 1, code = ''welcome'', name = ''Welcome'', language = ''en'',
            subject = Some ''Welcome {{name}}!'',
            content = ''Hello {{name}}, welcome to {{company}}!'',
            version = 1, is_active = True, created_at = 10, updated_at = 10\<rparr>]
          \<lparr>r_code = Some ''welcome'',
           r_variables = Some [(''name'', ''Alice''), (''company'', ''ACME Corp'')],
           r_language = None\<rparr>) = 200 \<and>
   map_option rd_subject (response_data (render_post placeholder_engine
          [\<lparr>uid = 1, code = ''welcome'', name = ''Welcome'', language = ''en'',
            subject = Some ''Welcome {{name}}!'',
            content = ''Hello {{name}}, welcome to {{company}}!'',
            version = 1, is_active = True, created_at = 10, updated_at = 10\<rparr>]
          \<lparr>r_code = Some ''welcome'',
           r_variables = Some [(''name'', ''Alice''), (''company'', ''ACME Corp'')],
           r_language = None\<rparr>)) = Some (Some ''Welcome {{name}}!'') \<and>
   map_option (\<lambda>f. f [(''name'', ''Alice''), (''company'', ''ACME Corp'')])
     (placeholder_engine ''Welcome {{name}}!'') = Some (Inr ''Welcome Alice!'')"
  by code_simp


theorem render_returns_stored_subject_witness:
  "http_status (render_post placeholder_engine
          [\<lparr>uid = 1, code = ''welcome'', name = ''Welcome'', language = ''en'',
            subject = Some ''Welcome {{name}}!'',
            content = ''Hello {{name}}, welcome to {{company}}!'',
            version = 1, is_active = True, created_at = 10, updated_at = 10\<rparr>]
          \<lparr>r_code = Some ''welcome'',
           r_variables = Some [(''name'', ''Alice''), (''company'', ''ACME Corp'')],
           r_language = None\<rparr>) = 200 \<and>
   (\<exists>t f s. latest_by_version (filter_active
          [\<lparr>uid = 1, code = ''welcome'', name = ''Welcome'', language = ''en'',
            subject = Some ''Welcome {{name}}!'',
            content = ''Hello {{name}}, welcome to {{company}}!'',
            version = 1, is_active = True, created_at = 10, updated_at = 10\<rparr>]
          ''welcome'' ''en'') = Some t \<and>
      placeholder_engine (content t) = Some f \<and>
      f [(''name'', ''Alice''), (''company'', ''ACME Corp'')] = Inr s \<and>
      response_data (render_post placeholder_engine
          [\<lparr>uid = 1, code = ''welcome'', name = ''Welcome'', language = ''en'',
            subject = Some ''Welcome {{name}}!'',
            content = ''Hello {{name}}, welcome to {{company}}!'',
            version = 1, is_active = True, created_at = 10, updated_at = 10\<rparr>]
          \<lparr>r_code = Some ''welcome'',
           r_variables = Some [(''name'', ''Alice''), (''company'', ''ACME Corp'')],
           r_language = None\<rparr>) =
        Some \<lparr>rd_code = code t, rd_subject = subject t, rd_content = s,
              rd_version = version t, rd_language = language t\<rparr>)"
proof -
  define db where "db = [\<lparr>uid = 1, code = ''welcome'', name = ''Welcome'', language = ''en'',
            subject = Some ''Welcome {{name}}!'',
            content = ''Hello {{name}}, welcome to {{company}}!'',
            version = 1, is_active = True, created_at = 10, updated_at = 10\<rparr>]"
  define req where "req = \<lparr>r_code = Some ''welcome'',
           r_variables = Some [(''name'', ''Alice''), (''company'', ''ACME Corp'')],
           r_language = None\<rparr>"
  have ok: "http_status (render_post placeholder_engine db req) = 200"
    unfolding db_def req_def by code_simp
  have c: "r_code req = Some ''welcome''" and l: "language_or_default (r_language req) = ''en''"
    and v: "r_variables req = Some [(''name'', ''Alice''), (''company'', ''ACME Corp'')]"
    by (simp_all add: req_def language_or_default_def)
  from render_returns_stored_subject [of placeholder_engine db req] ok
  obtain c' t f s where "r_code req = Some c'"
    and "latest_by_version (filter_active db c' (language_or_default (r_language req))) = Some t"
    and "placeholder_engine (content t) = Some f"
    and "f (case r_variables req of None \<Rightarrow> [] | Some v \<Rightarrow> v) = Inr s"
    and "response_data (render_post placeholder_engine db req) =
          Some \<lparr>rd_code = code t, rd_subject = subject t, rd_content = s,
                rd_version = version t, rd_language = language t\<rparr>"
    by blast
  then have "\<exists>t f s. latest_by_version (filter_active db ''welcome'' ''en'') = Some t \<and>
      placeholder_engine (content t) = Some f \<and>
      f [(''name'', ''Alice''), (''company'', ''ACME Corp'')] = Inr s \<and>
      response_data (render_post placeholder_engine db req) =
        Some \<lparr>rd_code = code t, rd_subject = subject t, rd_content = s,
              rd_version = version t, rd_language = language t\<rparr>"
    using c l v by auto
  with ok show ?thesis unfolding db_def req_def by blast
qed

section \<open>C5: validation at create time\<close>

text \<open>
  C5 (as amended). At create time the content is validated against the syntax of the
  engine: a create whose content does not compile is refused with a \<open>ValidationError\<close>
  (status 400) and the store is unchanged. The subject is checked for its length only:
  whether a payload is valid does not depend on what the engine makes of the subject.
\<close>

theorem create_validates_content_only:
  "(p_content p = Some ct \<and> DjangoTemplate ct = None \<longrightarrow>
      create DjangoTemplate new_id now db p = (Raised ValidationError, db) \<and>
      http_status (fst (create DjangoTemplate new_id now db p)) = 400) \<and>
   (length s \<le> 255 \<longrightarrow>
      (is_valid DjangoTemplate (p\<lparr>p_subject := Some (Some s)\<rparr>) = None) =
      (is_valid DjangoTemplate (p\<lparr>p_subject := None\<rparr>) = None))"
proof (intro conjI impI)
  assume a: "p_content p = Some ct \<and> DjangoTemplate ct = None"
  then show c: "create DjangoTemplate new_id now db p = (Raised ValidationError, db)"
    using create_invalid_content by blast
  show "http_status (fst (create DjangoTemplate new_id now db p)) = 400"
    by (simp add: c)
next
  assume "length s \<le> 255"
  then show "(is_valid DjangoTemplate (p\<lparr>p_subject := Some (Some s)\<rparr>) = None) =
      (is_valid DjangoTemplate (p\<lparr>p_subject := None\<rparr>) = None)"
    by (rule is_valid_subject_free)
qed

theorem create_validates_content_only_witness:
  "create placeholder_engine 1 10 []
      (client_payload ''bad'' (Some ''en'') (Some ''Bad'') ''{% for x in y %}{{x}}'')
     = (Raised ValidationError, []) \<and>
   http_status (fst (create placeholder_engine 1 10 []
      (client_payload ''bad'' (Some ''en'') (Some ''Bad'') ''{% for x in y %}{{x}}''))) = 400 \<and>
   is_valid placeholder_engine
      (client_payload ''ok'' None (Some ''{% for x in y %}{{x}}'') ''Hello {{name}}'') \<noteq> None"
proof -
  define bad where "bad = client_payload ''bad'' (Some ''en'') (Some ''Bad'') ''{% for x in y %}{{x}}''"
  define ok where "ok = client_payload ''ok'' None (Some ''{% for x in y %}{{x}}'') ''Hello {{name}}''"
  have c: "p_content bad = Some ''{% for x in y %}{{x}}''"
    by (simp add: bad_def client_payload_def)
  have e: "placeholder_engine ''{% for x in y %}{{x}}'' = None"
    by code_simp
  from c e have one: "create placeholder_engine 1 10 [] bad = (Raised ValidationError, [])"
    and two: "http_status (fst (create placeholder_engine 1 10 [] bad)) = 400"
    using create_validates_content_only [of bad "''{% for x in y %}{{x}}''" placeholder_engine 1 10 "[]"]
    by blast+
  have s: "ok\<lparr>p_subject := Some (Some ''{% for x in y %}{{x}}'')\<rparr> = ok"
    by (simp add: ok_def client_payload_def)
  have "is_valid placeholder_engine (ok\<lparr>p_subject := None\<rparr>) \<noteq> None"
    unfolding ok_def by code_simp
  moreover have "length ''{% for x in y %}{{x}}'' \<le> 255" by simp
  ultimately have three: "is_valid placeholder_engine ok \<noteq> None"
    using create_validates_content_only [of ok _ placeholder_engine _ _ _ "''{% for x in y %}{{x}}''"] s
    by simp
  from one two three show ?thesis unfolding bad_def ok_def by blast
qed

theorem create_subject_unchecked_counterexample:
  "placeholder_engine ''{% for x in y %}{{x}}'' = None \<and>
   http_status (fst (create placeholder_engine 1 10 []
      (client_payload ''ok'' None (Some ''{% for x in y %}{{x}}'') ''Hello {{name}}''))) = 201 \<and>
   map subject (snd (create placeholder_engine 1 10 []
      (client_payload ''ok'' None (Some ''{% for x in y %}{{x}}'') ''Hello {{name}}'')))
     = [Some ''{% for x in y %}{{x}}'']"
  by code_simp

section \<open>C6: the status codes of the render endpoint\<close>



section \<open>C7: listing the versions of a code\<close>

text \<open>
  C7. The queryset of the version listing holds every row of \<open>(code, language)\<close>, each
  once, in descending order of version (strictly descending, versions being unique
  within a group); with pagination off the endpoint answers 200 with exactly that
  sequence. For a code that no row has, the queryset is empty and, unless the paginator
  raises, the endpoint answers 200 with the empty queryset (pagination off) or with the
  page that the paginator cuts from the empty queryset.
\<close>

theorem list_versions_newest_first:
  "mset (get_queryset db c lang) = mset (filter_group db c (language_or_default lang)) \<and>
   sorted_wrt (\<lambda>a b. version b \<le> version a) (get_queryset db c lang) \<and>
   (unique_together db \<longrightarrow>
      sorted_wrt (\<lambda>a b. version b < version a) (get_queryset db c lang)) \<and>
   (paginate_queryset (get_queryset db c lang) = Inr None \<longrightarrow>
      list_versions paginate_queryset db c lang =
        Response 200
          (envelope_response True (Some (get_queryset db c lang)) ''Versions retrieved''
             None None)) \<and>
   ((\<forall>t\<in>set db. code t \<noteq> c) \<longrightarrow>
      get_queryset db c lang = [] \<and>
      (\<forall>pg. paginate_queryset [] = Inr pg \<longrightarrow>
         http_status (list_versions paginate_queryset db c lang) = 200 \<and>
         response_data (list_versions paginate_queryset db c lang) =
           Some (case pg of None \<Rightarrow> [] | Some pobj \<Rightarrow> items pobj)))"
proof (intro conjI impI)
  show "mset (get_queryset db c lang) = mset (filter_group db c (language_or_default lang))"
    by (rule mset_get_queryset)
  show "sorted_wrt (\<lambda>a b. version b \<le> version a) (get_queryset db c lang)"
    unfolding get_queryset_def by (rule order_by_version_desc_descending)
next
  assume "unique_together db"
  then have "distinct (map version (filter_group db c (language_or_default lang)))"
    by (rule unique_together_distinct_versions)
  then show "sorted_wrt (\<lambda>a b. version b < version a) (get_queryset db c lang)"
    unfolding get_queryset_def by (rule order_by_version_desc_strict)
next
  assume "paginate_queryset (get_queryset db c lang) = Inr None"
  then show "list_versions paginate_queryset db c lang =
        Response 200
          (envelope_response True (Some (get_queryset db c lang)) ''Versions retrieved''
             None None)"
    by (simp add: list_versions_def Let_def)
next
  assume a: "\<forall>t\<in>set db. code t \<noteq> c"
  then have "filter_group db c (language_or_default lang) = []"
    by (auto simp: filter_group_def filter_empty_conv)
  then show e: "get_queryset db c lang = []"
    by (simp add: get_queryset_def order_by_version_desc_def)
  show "\<forall>pg. paginate_queryset [] = Inr pg \<longrightarrow>
         http_status (list_versions paginate_queryset db c lang) = 200 \<and>
         response_data (list_versions paginate_queryset db c lang) =
           Some (case pg of None \<Rightarrow> [] | Some pobj \<Rightarrow> items pobj)"
    by (auto simp: list_versions_def Let_def e envelope_response_def split: option.splits)
qed

theorem list_versions_newest_first_witness:
  "map version (get_queryset
     [\<lparr>uid = 1, code = ''doc'', name = ''Doc v1'', language = ''en'', subject = Some ''Doc'',
       content = ''v1'', version = 1, is_active = False, created_at = 10, updated_at = 10\<rparr>,
      \<lparr>uid = 2, code = ''doc'', name = ''Doc v2'', language = ''en'', subject = Some ''Doc'',
       content = ''v2'', version = 2, is_active = False, created_at = 11, updated_at = 11\<rparr>,
      \<lparr>uid = 3, code = ''doc'', name = ''Doc v3'', language = ''en'', subject = Some ''Doc'',
       content = ''v3'', version = 3, is_active = True, created_at = 12, updated_at = 12\<rparr>]
     ''doc'' None) = [3, 2, 1] \<and>
   map_option (map version) (response_data (list_versions (\<lambda>qs. Inr None)
     [\<lparr>uid = 1, code = ''doc'', name = ''Doc v1'', language = ''en'', subject = Some ''Doc'',
       content = ''v1'', version = 1, is_active = False, created_at = 10, updated_at = 10\<rparr>,
      \<lparr>uid = 2, code = ''doc'', name = ''Doc v2'', language = ''en'', subject = Some ''Doc'',
       content = ''v2'', version = 2, is_active = False, created_at = 11, updated_at = 11\<rparr>,
      \<lparr>uid = 3, code = ''doc'', name = ''Doc v3'', language = ''en'', subject = Some ''Doc'',
       content = ''v3'', version = 3, is_active = True, created_at = 12, updated_at = 12\<rparr>]
     ''doc'' None)) = Some [3, 2, 1] \<and>
   http_status (list_versions (\<lambda>qs. Inr (Some \<lparr>items = take 2 qs, info = None\<rparr>))
     [\<lparr>uid = 1, code = ''doc'', name = ''Doc v1'', language = ''en'', subject = Some ''Doc'',
       content = ''v1'', version = 1, is_active = False, created_at = 10, updated_at = 10\<rparr>,
      \<lparr>uid = 2, code = ''doc'', name = ''Doc v2'', language = ''en'', subject = Some ''Doc'',
       content = ''v2'', version = 2, is_active = False, created_at = 11, updated_at = 11\<rparr>,
      \<lparr>uid = 3, code = ''doc'', name = ''Doc v3'', language = ''en'', subject = Some ''Doc'',
       content = ''v3'', version = 3, is_active = True, created_at = 12, updated_at = 12\<rparr>]
     ''nonexistent'' None) = 200 \<and>
   response_data (list_versions (\<lambda>qs. Inr (Some \<lparr>items = take 2 qs, info = None\<rparr>))
     [\<lparr>uid = 1, code = ''doc'', name = ''Doc v1'', language = ''en'', subject = Some ''Doc'',
       content = ''v1'', version = 1, is_active = False, created_at = 10, updated_at = 10\<rparr>,
      \<lparr>uid = 2, code = ''doc'', name = ''Doc v2'', language = ''en'', subject = Some ''Doc'',
       content = ''v2'', version = 2, is_active = False, created_at = 11, updated_at = 11\<rparr>,
      \<lparr>uid = 3, code = ''doc'', name = ''Doc v3'', language = ''en'', subject = Some ''Doc'',
       content = ''v3'', version = 3, is_active = True, created_at = 12, updated_at = 12\<rparr>]
     ''nonexistent'' None) = Some []"
proof -
  define db where "db =
     [\<lparr>uid = 1, code = ''doc'', name = ''Doc v1'', language = ''en'', subject = Some ''Doc'',
       content = ''v1'', version = 1, is_active = False, created_at = 10, updated_at = 10\<rparr>,
      \<lparr>uid = 2, code = ''doc'', name = ''Doc v2'', language = ''en'', subject = Some ''Doc'',
       content = ''v2'', version = 2, is_active = False, created_at = 11, updated_at = 11\<rparr>,
      \<lparr>uid = 3, code = ''doc'', name = ''Doc v3'', language = ''en'', subject = Some ''Doc'',
       content = ''v3'', version = 3, is_active = True, created_at = 12, updated_at = (12::nat)\<rparr>]"
  define off :: paginator where "off = (\<lambda>qs. Inr None)"
  define two :: paginator where "two = (\<lambda>qs. Inr (Some \<lparr>items = take 2 qs, info = None\<rparr>))"
  have u: "unique_together db" unfolding db_def by code_simp
  have q: "map version (get_queryset db ''doc'' None) = [3, 2, 1]"
    unfolding db_def by code_simp
  have "list_versions off db ''doc'' None =
        Response 200
          (envelope_response True (Some (get_queryset db ''doc'' None)) ''Versions retrieved''
             None None)"
    using list_versions_newest_first [of db "''doc''" None off] by (simp add: off_def)
  then have full: "map_option (map version) (response_data (list_versions off db ''doc'' None))
      = Some [3, 2, 1]"
    by (simp add: q envelope_response_def)
  have "\<forall>t\<in>set db. code t \<noteq> ''nonexistent''" by (simp add: db_def)
  moreover have "two [] = Inr (Some \<lparr>items = [], info = None\<rparr>)" by (simp add: two_def)
  ultimately have none: "http_status (list_versions two db ''nonexistent'' None) = 200"
    "response_data (list_versions two db ''nonexistent'' None) = Some []"
    using list_versions_newest_first [of db "''nonexistent''" None two] by auto
  from q full none show ?thesis unfolding db_def off_def two_def by blast
qed

section \<open>C8: direct PATCH and PUT\<close>

text \<open>
  C8 (as amended). A direct PATCH or PUT that is accepted answers 200 and writes \<open>code\<close>,
  \<open>name\<close>, \<open>language\<close>, \<open>subject\<close> and \<open>content\<close> of the addressed row as the body
  sends them (a field not sent keeps its value), outside the version logic, and sets
  \<open>updated_at\<close> to the time of the request; the other rows stay as they are, and a
  refused request leaves the store unchanged. None of \<open>id\<close>, \<open>version\<close>, \<open>is_active\<close>
  and \<open>created_at\<close> changes, on any row and whatever the body carries: the serializer
  declares them read-only. Two rows of one \<open>(code, language)\<close> pair can still end up
  active together: after three creates, two PATCHes that move the active rows of two
  groups to the same code leave that group with two active rows.
\<close>

theorem update_keeps_read_only_fields:
  "(unique_pk db \<and> update DjangoTemplate partial now db pk p = (r, db') \<longrightarrow>
      map (\<lambda>t. (uid t, version t, is_active t, created_at t)) db' =
      map (\<lambda>t. (uid t, version t, is_active t, created_at t)) db) \<and>
   (update DjangoTemplate partial now db pk p = (Raised e, db') \<longrightarrow> db' = db) \<and>
   (update DjangoTemplate partial now db pk p = (Response st env, db') \<longrightarrow>
      st = 200 \<and>
      (\<exists>inst t'. get_object db pk = Some inst \<and>
         t' = \<lparr>uid = uid inst,
               code = (case p_code p of None \<Rightarrow> code inst | Some s \<Rightarrow> s),
               name = (case p_name p of None \<Rightarrow> name inst | Some s \<Rightarrow> s),
               language = (case p_language p of None \<Rightarrow> language inst | Some s \<Rightarrow> s),
               subject = (case p_subject p of None \<Rightarrow> subject inst | Some s \<Rightarrow> s),
               content = (case p_content p of None \<Rightarrow> content inst | Some s \<Rightarrow> s),
               version = version inst, is_active = is_active inst,
               created_at = created_at inst, updated_at = now\<rparr> \<and>
         data env = Some t' \<and>
         db' = map (\<lambda>u. if uid u = pk then t' else u) db)) \<and>
   map (\<lambda>u. (code u, language u, version u, is_active u))
     (snd (update placeholder_engine True 21
        (snd (update placeholder_engine True 20
           (run_lifecycle placeholder_engine []
              [Create 1 10 (client_payload ''a'' None None ''A''),
               Create 2 11 (client_payload ''b'' None None ''B1''),
               Create 3 12 (client_payload ''b'' None None ''B2'')])
           1 (empty_payload\<lparr>p_code := Some ''c''\<rparr>)))
        3 (empty_payload\<lparr>p_code := Some ''c''\<rparr>)))
     = [(''c'', ''en'', 1, True), (''b'', ''en'', 1, False), (''c'', ''en'', 2, True)]"
proof (intro conjI impI)
  assume "unique_pk db \<and> update DjangoTemplate partial now db pk p = (r, db')"
  then show "map (\<lambda>t. (uid t, version t, is_active t, created_at t)) db' =
      map (\<lambda>t. (uid t, version t, is_active t, created_at t)) db"
    using update_read_only by blast
next
  assume "update DjangoTemplate partial now db pk p = (Raised e, db')"
  then show "db' = db" by (rule update_raised)
next
  assume a: "update DjangoTemplate partial now db pk p = (Response st env, db')"
  then obtain inst where i: "get_object db pk = Some inst"
    and d: "db' = map (\<lambda>u. if uid u = pk then apply_update now inst p else u) db"
    and s: "st = 200" and e: "data env = Some (apply_update now inst p)"
    by (rule update_response)
  show "st = 200" by (rule s)
  from i d e show "\<exists>inst t'. get_object db pk = Some inst \<and>
         t' = \<lparr>uid = uid inst,
               code = (case p_code p of None \<Rightarrow> code inst | Some s \<Rightarrow> s),
               name = (case p_name p of None \<Rightarrow> name inst | Some s \<Rightarrow> s),
               language = (case p_language p of None \<Rightarrow> language inst | Some s \<Rightarrow> s),
               subject = (case p_subject p of None \<Rightarrow> subject inst | Some s \<Rightarrow> s),
               content = (case p_content p of None \<Rightarrow> content inst | Some s \<Rightarrow> s),
               version = version inst, is_active = is_active inst,
               created_at = created_at inst, updated_at = now\<rparr> \<and>
         data env = Some t' \<and>
         db' = map (\<lambda>u. if uid u = pk then t' else u) db"
    unfolding apply_update_fields by blast
next
  show "map (\<lambda>u. (code u, language u, version u, is_active u))
     (snd (update placeholder_engine True 21
        (snd (update placeholder_engine True 20
           (run_lifecycle placeholder_engine []
              [Create 1 10 (client_payload ''a'' None None ''A''),
               Create 2 11 (client_payload ''b'' None None ''B1''),
               Create 3 12 (client_payload ''b'' None None ''B2'')])
           1 (empty_payload\<lparr>p_code := Some ''c''\<rparr>)))
        3 (empty_payload\<lparr>p_code := Some ''c''\<rparr>)))
     = [(''c'', ''en'', 1, True), (''b'', ''en'', 1, False), (''c'', ''en'', 2, True)]"
    by code_simp
qed

theorem update_keeps_read_only_fields_witness:
  "unique_pk (run_lifecycle placeholder_engine []
      [Create 1 10 (client_payload ''b'' None None ''B1''),
       Create 2 11 (client_payload ''b'' None None ''B2'')]) \<and>
   map (\<lambda>t. (uid t, version t, is_active t, created_at t))
     (snd (update placeholder_engine True 20
        (run_lifecycle placeholder_engine []
           [Create 1 10 (client_payload ''b'' None None ''B1''),
            Create 2 11 (client_payload ''b'' None None ''B2'')])
        1 \<lparr>p_id = Some 42, p_code = Some ''c'', p_name = Some ''Renamed'',
           p_language = Some ''pt'', p_subject = Some (Some ''Hi''),
           p_content = Some ''Hello {{x}}'', p_version = Some 7, p_is_active = Some True,
           p_created_at = Some 99, p_updated_at = Some 99\<rparr>))
     = [(1, 1, False, 10), (2, 2, True, 11)] \<and>
   map_option (\<lambda>t. (code t, name t, language t, subject t, content t, updated_at t))
     (response_data (fst (update placeholder_engine True 20
        (run_lifecycle placeholder_engine []
           [Create 1 10 (client_payload ''b'' None None ''B1''),
            Create 2 11 (client_payload ''b'' None None ''B2'')])
        1 \<lparr>p_id = Some 42, p_code = Some ''c'', p_name = Some ''Renamed'',
           p_language = Some ''pt'', p_subject = Some (Some ''Hi''),
           p_content = Some ''Hello {{x}}'', p_version = Some 7, p_is_active = Some True,
           p_created_at = Some 99, p_updated_at = Some 99\<rparr>)))
     = Some (''c'', ''Renamed'', ''pt'', Some ''Hi'', ''Hello {{x}}'', 20) \<and>
   snd (update placeholder_engine True 20
        (run_lifecycle placeholder_engine []
           [Create 1 10 (client_payload ''b'' None None ''B1''),
            Create 2 11 (client_payload ''b'' None None ''B2'')])
        7 (empty_payload\<lparr>p_code := Some ''c''\<rparr>))
     = run_lifecycle placeholder_engine []
           [Create 1 10 (client_payload ''b'' None None ''B1''),
            Create 2 11 (client_payload ''b'' None None ''B2'')]"
proof -
  define db where "db = run_lifecycle placeholder_engine []
           [Create 1 10 (client_payload ''b'' None None ''B1''),
            Create 2 11 (client_payload ''b'' None None ''B2'')]"
  define p where "p = \<lparr>p_id = Some (42::nat), p_code = Some ''c'', p_name = Some ''Renamed'',
           p_language = Some ''pt'', p_subject = Some (Some ''Hi''),
           p_content = Some ''Hello {{x}}'', p_version = Some (7::int), p_is_active = Some True,
           p_created_at = Some (99::nat), p_updated_at = Some (99::nat)\<rparr>"
  define res where "res = update placeholder_engine True 20 db 1 p"
  define gone where "gone = update placeholder_engine True 20 db 7 (empty_payload\<lparr>p_code := Some ''c''\<rparr>)"
  have u: "unique_pk db" unfolding db_def by code_simp
  have pair: "update placeholder_engine True 20 db 1 p = (fst res, snd res)"
    by (simp add: res_def)
  with u have "map (\<lambda>t. (uid t, version t, is_active t, created_at t)) (snd res) =
      map (\<lambda>t. (uid t, version t, is_active t, created_at t)) db"
    using update_keeps_read_only_fields [of db placeholder_engine True 20 1 p "fst res" "snd res"]
    by blast
  moreover have "map (\<lambda>t. (uid t, version t, is_active t, created_at t)) db =
      [(1, 1, False, 10), (2, 2, True, 11)]"
    unfolding db_def by code_simp
  ultimately have one: "map (\<lambda>t. (uid t, version t, is_active t, created_at t)) (snd res) =
      [(1, 1, False, 10), (2, 2, True, 11)]"
    by simp
  have "http_status (fst res) = 200" unfolding res_def db_def p_def by code_simp
  then obtain st env where r: "fst res = Response st env"
    by (cases "fst res") (auto elim: status_code.elims)
  with pair have "update placeholder_engine True 20 db 1 p = (Response st env, snd res)"
    by simp
  then obtain inst where "get_object db 1 = Some inst"
    and d: "data env = Some \<lparr>uid = uid inst,
               code = (case p_code p of None \<Rightarrow> code inst | Some s \<Rightarrow> s),
               name = (case p_name p of None \<Rightarrow> name inst | Some s \<Rightarrow> s),
               language = (case p_language p of None \<Rightarrow> language inst | Some s \<Rightarrow> s),
               subject = (case p_subject p of None \<Rightarrow> subject inst | Some s \<Rightarrow> s),
               content = (case p_content p of None \<Rightarrow> content inst | Some s \<Rightarrow> s),
               version = version inst, is_active = is_active inst,
               created_at = created_at inst, updated_at = 20\<rparr>"
    using update_keeps_read_only_fields
      [of db placeholder_engine True 20 1 p _ "snd res" _ st env]
    by blast
  have two: "map_option (\<lambda>t. (code t, name t, language t, subject t, content t, updated_at t))
      (response_data (fst res)) = Some (''c'', ''Renamed'', ''pt'', Some ''Hi'', ''Hello {{x}}'', 20)"
    unfolding r by (simp add: d p_def)
  have "case fst gone of Response _ _ \<Rightarrow> False | Raised _ \<Rightarrow> True"
    unfolding gone_def db_def by code_simp
  then obtain e where "fst gone = Raised e"
    by (cases "fst gone") simp_all
  then have "update placeholder_engine True 20 db 7 (empty_payload\<lparr>p_code := Some ''c''\<rparr>) =
      (Raised e, snd gone)"
    unfolding gone_def by (metis prod.collapse)
  then have three: "snd gone = db"
    using update_keeps_read_only_fields
      [of db placeholder_engine True 20 7 "empty_payload\<lparr>p_code := Some ''c''\<rparr>" _ "snd gone" e]
    by blast
  from u one two three show ?thesis unfolding res_def gone_def db_def p_def by blast
qed

theorem patch_is_active_counterexample:
  "http_status (fst (update placeholder_engine True 20
        (run_lifecycle placeholder_engine []
           [Create 1 10 (client_payload ''b'' None None ''B1''),
            Create 2 11 (client_payload ''b'' None None ''B2'')])
        1 (empty_payload\<lparr>p_is_active := Some True\<rparr>))) = 200 \<and>
   map (\<lambda>u. (uid u, version u, is_active u))
     (snd (update placeholder_engine True 20
        (run_lifecycle placeholder_engine []
           [Create 1 10 (client_payload ''b'' None None ''B1''),
            Create 2 11 (client_payload ''b'' None None ''B2'')])
        1 (empty_payload\<lparr>p_is_active := Some True\<rparr>)))
     = [(1, 1, False), (2, 2, True)]"
  by code_simp

section \<open>C10: several active rows\<close>



end
